theory Spec2Isabelle
  imports Complex_Main
begin

section \<open>The ZWO AM mount driver (indigo\_mount\_asi.c)\<close>

text \<open>
  A shallow embedding of the command channel, the command set and the position poll of
  \<^verbatim>\<open>indigo_mount_asi.c\<close>. Bytes are HOL characters, C strings are lists of them,
  C \<^verbatim>\<open>int\<close> values are \<open>int\<close> (the driver only compares, prints and parses them),
  and the serial link is an explicit record: what \<^verbatim>\<open>select\<close> and \<^verbatim>\<open>read\<close> will
  answer, what \<^verbatim>\<open>indigo_write\<close> will answer, and what was handed to it so far.
  The port mutex is not modelled: every function below is one sequential run.
\<close>

subsection \<open>The link\<close>

text \<open>
  One entry of \<open>rx\<close> answers one \<^verbatim>\<open>select\<close> call of the driver together with the
  \<^verbatim>\<open>read\<close> of one byte that follows a positive answer:
  \<open>Quiet\<close> is \<^verbatim>\<open>select\<close> returning 0 (nothing arrived within the timeout),
  \<open>SelectError\<close> is \<^verbatim>\<open>select\<close> returning a negative value,
  \<open>ReadError\<close> is a positive \<^verbatim>\<open>select\<close> followed by \<^verbatim>\<open>read\<close> returning less than 1,
  \<open>Byte c\<close> is a positive \<^verbatim>\<open>select\<close> followed by \<^verbatim>\<open>read\<close> delivering \<open>c\<close>.
  An exhausted \<open>rx\<close> is a link on which nothing arrives any more.
  One entry of \<open>tx\<close> is the result of one \<^verbatim>\<open>indigo_write\<close> call (exhausted: success).
  \<open>sent\<close> lists the commands handed to \<^verbatim>\<open>indigo_write\<close>, oldest first.
\<close>

datatype ev = Quiet | SelectError | ReadError | Byte char

record link =
  rx :: "ev list"
  tx :: "bool list"
  sent :: "string list"

text \<open>
  Modelled from the spec: \<^verbatim>\<open>indigo_write\<close> lives in the framework's I/O library, outside
  this file; the spec gives it as \<^verbatim>\<open>write(handle, bytes) -> Fail-on-error\<close>.
\<close>

definition indigo_write :: "link \<Rightarrow> string \<Rightarrow> bool \<times> link" where
  "indigo_write l command =
     (case tx l of
        [] \<Rightarrow> (True, l\<lparr>sent := sent l @ [command]\<rparr>)
      | ok # rest \<Rightarrow> (ok, l\<lparr>tx := rest, sent := sent l @ [command]\<rparr>))"

subsection \<open>Character buffers\<close>

abbreviation NUL :: char where
  "NUL \<equiv> CHR 0x00"

text \<open>
  A \<^verbatim>\<open>char response[128]\<close> is the list of its cells. \<open>store\<close> is
  \<^verbatim>\<open>response[index] = c\<close>; a store at \<open>index = length response\<close> (the terminator after
  128 bytes without \<^verbatim>\<open>#\<close>, when \<^verbatim>\<open>max\<close> is \<^verbatim>\<open>sizeof(response)\<close>) lands behind the
  array in C and is kept here as one more cell. \<open>cstr\<close> is the string a reader of the
  buffer sees, \<open>deref\<close> is \<^verbatim>\<open>*response\<close>.
\<close>

definition store :: "string \<Rightarrow> nat \<Rightarrow> char \<Rightarrow> string" where
  "store response index c =
     (if index < length response then response[index := c] else response @ [c])"

definition cstr :: "string \<Rightarrow> string" where
  "cstr response = takeWhile (\<lambda>c. c \<noteq> NUL) response"

definition deref :: "string \<Rightarrow> char" where
  "deref response = (case response of [] \<Rightarrow> NUL | c # cs \<Rightarrow> c)"

text \<open>
  The local arrays of the driver are not initialised. The model starts them zeroed;
  the only readers of a buffer that no completed exchange has filled are
  \<^verbatim>\<open>asi_slew\<close> and \<^verbatim>\<open>asi_sync\<close> after a failed exchange, and they take the
  initial contents as an argument.
\<close>

definition response_init :: string where
  "response_init = replicate 128 NUL"

subsection \<open>asi\_command\<close>

text \<open>The drain loop before the write: bytes are discarded until \<^verbatim>\<open>select\<close> finds none.\<close>

fun flush :: "ev list \<Rightarrow> bool \<times> ev list" where
  "flush [] = (True, [])"
| "flush (Quiet # es) = (True, es)"
| "flush (SelectError # es) = (False, es)"
| "flush (ReadError # es) = (False, es)"
| "flush (Byte c # es) = flush es"

text \<open>
  The read loop \<^verbatim>\<open>while (index < max)\<close>. \<^verbatim>\<open>char\<close> is taken as signed (as on x86), so
  \<^verbatim>\<open>c < 0\<close> is the top bit of the byte. The result is the return flag so far, the final
  \<open>index\<close>, the buffer and the rest of the input.
\<close>

fun read_response :: "ev list \<Rightarrow> int \<Rightarrow> nat \<Rightarrow> string \<Rightarrow> bool \<times> nat \<times> string \<times> ev list" where
  "read_response [] maxlen index response = (True, index, response, [])"
| "read_response (Quiet # es) maxlen index response =
     (if int index < maxlen then (True, index, response, es)
      else (True, index, response, Quiet # es))"
| "read_response (SelectError # es) maxlen index response =
     (if int index < maxlen then (True, index, response, es)
      else (True, index, response, SelectError # es))"
| "read_response (ReadError # es) maxlen index response =
     (if int index < maxlen then (False, index, response, es)
      else (True, index, response, ReadError # es))"
| "read_response (Byte b # es) maxlen index response =
     (if int index < maxlen then
        (let c = (if digit7 b then CHR '':'' else b) in
         if c = CHR ''#'' then (True, index, response, es)
         else read_response es maxlen (index + 1) (store response index c))
      else (True, index, response, Byte b # es))"

text \<open>
  \<^verbatim>\<open>asi_command(device, command, response, max, sleep)\<close>; \<open>None\<close> is a \<^verbatim>\<open>NULL\<close>
  response. The result of \<^verbatim>\<open>indigo_write\<close> is dropped, as in the source, and the pause
  of \<open>sleep\<close> microseconds has no effect on the model.
\<close>

definition asi_command :: "link \<Rightarrow> string \<Rightarrow> string option \<Rightarrow> int \<Rightarrow> int \<Rightarrow> bool \<times> string \<times> link" where
  "asi_command l command response maxlen sleep =
     (case flush (rx l) of
        (False, es) \<Rightarrow> (False, (case response of None \<Rightarrow> [] | Some r \<Rightarrow> r), l\<lparr>rx := es\<rparr>)
      | (True, es) \<Rightarrow>
          (let l1 = snd (indigo_write (l\<lparr>rx := es\<rparr>) command) in
           case response of
             None \<Rightarrow> (True, [], l1)
           | Some r \<Rightarrow>
               (case read_response (rx l1) maxlen 0 r of
                  (False, index, r', es') \<Rightarrow> (False, r', l1\<lparr>rx := es'\<rparr>)
                | (True, index, r', es') \<Rightarrow> (True, store r' index NUL, l1\<lparr>rx := es'\<rparr>))))"

subsection \<open>Formatting and scanning\<close>

text \<open>The decimal digits of a natural number, as \<^verbatim>\<open>printf\<close> writes them.\<close>

fun digits10 :: "nat \<Rightarrow> string" where
  "digits10 n =
     (if n < 10 then [''0123456789'' ! n]
      else digits10 (n div 10) @ [''0123456789'' ! (n mod 10)])"

declare digits10.simps [simp del]

text \<open>
  \<^verbatim>\<open>%0<width>d\<close> (\<open>plus_flag = False\<close>) and \<^verbatim>\<open>%+0<width>d\<close> (\<open>plus_flag = True\<close>): the sign
  first, then zeros up to the width, then the digits.
\<close>

definition printf_d :: "bool \<Rightarrow> nat \<Rightarrow> int \<Rightarrow> string" where
  "printf_d plus_flag width n =
     (let sign = (if n < 0 then ''-'' else if plus_flag then ''+'' else '''');
          ds = digits10 (nat \<bar>n\<bar>)
      in sign @ replicate (width - length sign - length ds) (CHR ''0'') @ ds)"

text \<open>
  \<^verbatim>\<open>%d\<close> of \<^verbatim>\<open>scanf\<close> and \<^verbatim>\<open>atoi\<close>: white space is skipped, then an optional sign and
  at least one digit are read. The value is not cut to 32 bits (the driver never relies on
  what a number too long for an \<^verbatim>\<open>int\<close> scans to). The result is the number and the
  rest of the input.
\<close>

definition isspace :: "char \<Rightarrow> bool" where
  "isspace c = (c \<in> set [CHR '' '', CHR 0x09, CHR 0x0A, CHR 0x0B, CHR 0x0C, CHR 0x0D])"

definition isdigit :: "char \<Rightarrow> bool" where
  "isdigit c = (c \<in> set ''0123456789'')"

definition digit_value :: "char \<Rightarrow> int" where
  "digit_value c = int (of_char c) - 48"

definition scan_d :: "string \<Rightarrow> (int \<times> string) option" where
  "scan_d s =
     (let s1 = dropWhile isspace s;
          neg = (case s1 of [] \<Rightarrow> False | c # cs \<Rightarrow> c = CHR ''-'');
          s2 = (case s1 of [] \<Rightarrow> [] | c # cs \<Rightarrow> if c = CHR ''-'' \<or> c = CHR ''+'' then cs else s1);
          ds = takeWhile isdigit s2;
          v = foldl (\<lambda>a c. 10 * a + digit_value c) 0 ds
      in if ds = [] then None else Some (if neg then - v else v, dropWhile isdigit s2))"

definition atoi :: "string \<Rightarrow> int" where
  "atoi s = (case scan_d s of None \<Rightarrow> 0 | Some (v, rest) \<Rightarrow> v)"

text \<open>
  \<^verbatim>\<open>sscanf(response, "%d%c%d%c%d", &a, separator, &b, separator, &c) == 5\<close>: the three
  numbers when all five conversions succeed, \<open>None\<close> otherwise.
\<close>

definition sscanf_dcdcd :: "string \<Rightarrow> (int \<times> int \<times> int) option" where
  "sscanf_dcdcd s =
     (case scan_d s of
        None \<Rightarrow> None
      | Some (a, s1) \<Rightarrow>
          (case s1 of
             [] \<Rightarrow> None
           | sep1 # s2 \<Rightarrow>
               (case scan_d s2 of
                  None \<Rightarrow> None
                | Some (b, s3) \<Rightarrow>
                    (case s3 of
                       [] \<Rightarrow> None
                     | sep2 # s4 \<Rightarrow>
                         (case scan_d s4 of
                            None \<Rightarrow> None
                          | Some (c, s5) \<Rightarrow> Some (a, b, c))))))"

subsection \<open>Device error codes\<close>

definition error_string :: "string list" where
  "error_string =
     ['''',
      ''Prameters out of range'',
      ''Format error'',
      ''Mount not initialized'',
      ''Mount is Moving'',
      ''Target is below horizon'',
      ''Target is beow the altitude limit'',
      ''Time and location is not set'',
      ''Unkonwn error'']"

text \<open>The argument is an \<^verbatim>\<open>unsigned int\<close>.\<close>

definition asi_error_string :: "nat \<Rightarrow> string" where
  "asi_error_string code = error_string ! (if code > 8 then 0 else code)"

text \<open>\<^verbatim>\<open>sscanf(response, "e%d", &error_code)\<close>: the letter, then a number.\<close>

definition asi_error_code :: "string \<Rightarrow> int" where
  "asi_error_code response =
     (case response of
        [] \<Rightarrow> 0
      | c # cs \<Rightarrow>
          if c = CHR ''e'' then (case scan_d cs of None \<Rightarrow> 0 | Some (error_code, rest) \<Rightarrow> error_code)
          else 0)"

subsection \<open>Calendar time\<close>

text \<open>
  The fields of \<^verbatim>\<open>struct tm\<close> that the driver reads or writes, and \<^verbatim>\<open>gmtime_r\<close> of the C
  library on the proleptic Gregorian calendar (days are counted from 1970-01-01; the
  year is counted from 1900 and the month from 0, as \<^verbatim>\<open>struct tm\<close> has them).
\<close>

record tm =
  tm_sec :: int
  tm_min :: int
  tm_hour :: int
  tm_mday :: int
  tm_mon :: int
  tm_year :: int
  tm_isdst :: int
  tm_gmtoff :: int

definition gmtime_r :: "int \<Rightarrow> tm" where
  "gmtime_r seconds =
     (let days = seconds div 86400;
          secs_of_day = seconds mod 86400;
          z = days + 719468;
          era = z div 146097;
          doe = z - era * 146097;
          yoe = (doe - doe div 1460 + doe div 36524 - doe div 146096) div 365;
          doy = doe - (365 * yoe + yoe div 4 - yoe div 100);
          mp = (5 * doy + 2) div 153;
          d = doy - (153 * mp + 2) div 5 + 1;
          m = (if mp < 10 then mp + 3 else mp - 9);
          y = yoe + era * 400 + (if m \<le> 2 then 1 else 0)
      in \<lparr>tm_sec = secs_of_day mod 60, tm_min = (secs_of_day div 60) mod 60,
          tm_hour = secs_of_day div 3600, tm_mday = d, tm_mon = m - 1,
          tm_year = y - 1900, tm_isdst = 0, tm_gmtoff = 0\<rparr>)"

text \<open>The \<^verbatim>\<open>%\<close> of C on \<^verbatim>\<open>int\<close>: the remainder has the sign of the dividend.\<close>

definition c_rem :: "int \<Rightarrow> int \<Rightarrow> int" where
  "c_rem a b = sgn a * (\<bar>a\<bar> mod \<bar>b\<bar>)"

subsection \<open>Binary floating point, for the guide rate\<close>

text \<open>
  \<^verbatim>\<open>float rate = ra / 100.0\<close> divides in \<^verbatim>\<open>double\<close> and narrows to \<^verbatim>\<open>float\<close>; both steps
  round to the nearest value of 53 and of 24 significant bits, ties to even. A value is
  kept as a pair \<open>(m, e)\<close> standing for \<open>m * 2 ^ e\<close>. Only quotients \<open>a / b\<close> with
  \<open>0 \<le> a\<close> and \<open>0 < b\<close> are rounded (the guide rate is at least 10 when it is divided), and
  the exponent range of the formats is never reached by an \<^verbatim>\<open>int\<close> divided by 100.
\<close>









subsection \<open>Guide pulses\<close>

definition asi_guide_dec :: "link \<Rightarrow> int \<Rightarrow> int \<Rightarrow> bool \<times> link" where
  "asi_guide_dec l north south =
     (if north > 0 then
        (case asi_command l ('':Mgn'' @ printf_d False 4 north @ ''#'') None 0 0 of
           (ok, r, l') \<Rightarrow> (ok, l'))
      else if south > 0 then
        (case asi_command l ('':Mgs'' @ printf_d False 4 south @ ''#'') None 0 0 of
           (ok, r, l') \<Rightarrow> (ok, l'))
      else (False, l))"

definition asi_guide_ra :: "link \<Rightarrow> int \<Rightarrow> int \<Rightarrow> bool \<times> link" where
  "asi_guide_ra l west east =
     (if west > 0 then
        (case asi_command l ('':Mgw'' @ printf_d False 4 west @ ''#'') None 0 0 of
           (ok, r, l') \<Rightarrow> (ok, l'))
      else if east > 0 then
        (case asi_command l ('':Mge'' @ printf_d False 4 east @ ''#'') None 0 0 of
           (ok, r, l') \<Rightarrow> (ok, l'))
      else (False, l))"

subsection \<open>The device\<close>

text \<open>
  \<^verbatim>\<open>double\<close> values are carried as \<open>real\<close>; the poll and the slew only pass them on,
  \<^verbatim>\<open>asi_get_site\<close> and \<^verbatim>\<open>asi_set_site\<close> add, subtract and compare them.
  The functions of the framework and of the C library that the driver calls on them are
  not part of this file and are parameters of the model, as is the global \<^verbatim>\<open>daylight\<close>.
\<close>

record externs =
  indigo_stod :: "string \<Rightarrow> real"
  indigo_dtos :: "real \<Rightarrow> string \<Rightarrow> string"
  indigo_eq_to_j2k :: "real \<Rightarrow> real \<times> real \<Rightarrow> real \<times> real"
  mktime :: "tm \<Rightarrow> int"
  daylight :: int

datatype indigo_property_state =
  INDIGO_IDLE_STATE | INDIGO_OK_STATE | INDIGO_BUSY_STATE | INDIGO_ALERT_STATE

text \<open>
  The private data of the driver (\<open>port\<close> is the stream behind \<^verbatim>\<open>handle\<close>) and the
  property items it reads and writes, under the names of their macros. A switch item is
  its \<^verbatim>\<open>sw.value\<close>, a number item its \<^verbatim>\<open>number.value\<close>; the UTC item is kept as the
  \<^verbatim>\<open>time_t\<close> whose ISO text the property holds, the offset item as the number printed
  into it. \<open>position_timer\<close> is the delay, in seconds, of the pending poll.
  Notifications to the framework (\<^verbatim>\<open>indigo_update_property\<close> and
  \<^verbatim>\<open>indigo_update_coordinates\<close>) change nothing the driver reads and are left out.
\<close>

record device =
  port :: link
  handle :: int
  lastMotionNS :: char
  lastMotionWE :: char
  lastRA :: real
  lastDec :: real
  use_dst_commands :: bool
  prev_home_state :: bool
  position_timer :: "real option"
  MOUNT_MOTION_NORTH_ITEM :: bool
  MOUNT_MOTION_SOUTH_ITEM :: bool
  MOUNT_MOTION_WEST_ITEM :: bool
  MOUNT_MOTION_EAST_ITEM :: bool
  MOUNT_TRACKING_ON_ITEM :: bool
  MOUNT_TRACKING_OFF_ITEM :: bool
  MOUNT_HOME_ITEM :: bool
  MOUNT_HOME_PROPERTY_state :: indigo_property_state
  MOUNT_SIDE_OF_PIER_WEST_ITEM :: bool
  MOUNT_SIDE_OF_PIER_EAST_ITEM :: bool
  MOUNT_EPOCH_ITEM :: real
  MOUNT_EQUATORIAL_COORDINATES_RA_ITEM :: real
  MOUNT_EQUATORIAL_COORDINATES_DEC_ITEM :: real
  MOUNT_EQUATORIAL_COORDINATES_PROPERTY_state :: indigo_property_state
  MOUNT_GEOGRAPHIC_COORDINATES_LATITUDE_ITEM :: real
  MOUNT_GEOGRAPHIC_COORDINATES_LONGITUDE_ITEM :: real
  MOUNT_UTC_ITEM :: int
  MOUNT_UTC_OFFSET_ITEM :: int
  MOUNT_UTC_TIME_PROPERTY_state :: indigo_property_state

subsection \<open>Mount commands\<close>

text \<open>
  Functions that only talk to the mount take the link and return it; functions that
  read or write private data or property items take the device.
\<close>

definition asi_set_utc :: "externs \<Rightarrow> device \<Rightarrow> int \<Rightarrow> int \<Rightarrow> bool \<times> link" where
  "asi_set_utc X s secs utc_offset =
     (let seconds = secs + utc_offset * 3600;
          tm = gmtime_r seconds;
          command = '':SC'' @ printf_d False 2 (tm_mon tm + 1) @ ''/'' @ printf_d False 2 (tm_mday tm)
                      @ ''/'' @ printf_d False 2 (c_rem (tm_year tm) 100) @ ''#''
      in case asi_command (port s) command (Some response_init) 1 0 of
           (result, response, l1) \<Rightarrow>
             if \<not> result \<or> deref response \<noteq> CHR ''1'' then (False, l1)
             else
               (let l2 = (if use_dst_commands s
                          then snd (snd (asi_command l1 ('':SH'' @ printf_d False 0 (daylight X) @ ''#'') None 0 0))
                          else l1);
                    command = '':SG'' @ printf_d True 3 (- utc_offset) @ ''#''
                in case asi_command l2 command (Some response) 1 0 of
                     (ok, response, l3) \<Rightarrow>
                       if \<not> ok \<or> deref response \<noteq> CHR ''1'' then (False, l3)
                       else
                         (let command = '':SL'' @ printf_d False 2 (tm_hour tm) @ '':''
                                          @ printf_d False 2 (tm_min tm) @ '':''
                                          @ printf_d False 2 (tm_sec tm) @ ''#''
                          in case asi_command l3 command (Some response) 1 0 of
                               (ok, response, l4) \<Rightarrow>
                                 if \<not> ok \<or> deref response \<noteq> CHR ''1'' then (False, l4)
                                 else (True, l4))))"

text \<open>The result is \<open>Some (secs, utc_offset)\<close> when the function returns true.\<close>

definition asi_get_utc :: "externs \<Rightarrow> device \<Rightarrow> (int \<times> int) option \<times> link" where
  "asi_get_utc X s =
     (case asi_command (port s) '':GC#'' (Some response_init) 128 0 of
        (ok1, response, l1) \<Rightarrow>
          (case (if ok1 then sscanf_dcdcd (cstr response) else None) of
             None \<Rightarrow> (None, l1)
           | Some (mon, mday, year) \<Rightarrow>
               (case asi_command l1 '':GL#'' (Some response) 128 0 of
                  (ok2, response, l2) \<Rightarrow>
                    (case (if ok2 then sscanf_dcdcd (cstr response) else None) of
                       None \<Rightarrow> (None, l2)
                     | Some (hour, minute, sec) \<Rightarrow>
                         (case asi_command l2 '':GG#'' (Some response) 128 0 of
                            (ok3, response, l3) \<Rightarrow>
                              if ok3 then
                                (let utc_offset = - atoi (cstr response);
                                     tm = \<lparr>tm_sec = sec, tm_min = minute, tm_hour = hour,
                                           tm_mday = mday, tm_mon = mon - 1, tm_year = year + 100,
                                           tm_isdst = 0, tm_gmtoff = utc_offset * 3600\<rparr>
                                 in if use_dst_commands s then
                                      (case asi_command l3 '':GH#'' (Some response) 128 0 of
                                         (ok4, response, l4) \<Rightarrow>
                                           (Some (mktime X (if ok4 then tm\<lparr>tm_isdst := atoi (cstr response)\<rparr> else tm),
                                                  utc_offset), l4))
                                    else (Some (mktime X (tm\<lparr>tm_isdst := daylight X\<rparr>), utc_offset), l3))
                              else (None, l3))))))"




definition asi_get_coordinates :: "externs \<Rightarrow> link \<Rightarrow> real \<Rightarrow> real \<Rightarrow> bool \<times> real \<times> real \<times> link" where
  "asi_get_coordinates X l ra dec =
     (case asi_command l '':GR#'' (Some response_init) 128 0 of
        (ok1, response, l1) \<Rightarrow>
          if ok1 then
            (let ra = indigo_stod X (cstr response)
             in case asi_command l1 '':GD#'' (Some response) 128 0 of
                  (ok2, response, l2) \<Rightarrow>
                    if ok2 then (True, ra, indigo_stod X (cstr response), l2)
                    else (False, ra, dec, l2))
          else (False, ra, dec, l1))"

text \<open>
  The results are the return flag and \<^verbatim>\<open>*error_code\<close>. \<open>response\<close> is what the local
  array holds when the function starts: after a failed exchange the error code is scanned
  from whatever the buffer holds then.
\<close>

definition asi_slew :: "externs \<Rightarrow> link \<Rightarrow> real \<Rightarrow> real \<Rightarrow> string \<Rightarrow> bool \<times> int \<times> link" where
  "asi_slew X l ra dec response =
     (let command = '':Sr'' @ indigo_dtos X ra ''%02d:%02d:%02.0f'' @ ''#''
      in case asi_command l command (Some response) 128 0 of
           (ok, response, l1) \<Rightarrow>
             if \<not> ok \<or> deref response \<noteq> CHR ''1'' then (False, asi_error_code (cstr response), l1)
             else
               (let command = '':Sd'' @ indigo_dtos X dec ''%+03d*%02d:%02.0f'' @ ''#''
                in case asi_command l1 command (Some response) 128 0 of
                     (ok, response, l2) \<Rightarrow>
                       if \<not> ok \<or> deref response \<noteq> CHR ''1''
                       then (False, asi_error_code (cstr response), l2)
                       else
                         (case asi_command l2 '':MS#'' (Some response) 128 100000 of
                            (ok, response, l3) \<Rightarrow>
                              if \<not> ok \<or> deref response \<noteq> CHR ''0''
                              then (False, asi_error_code (cstr response), l3)
                              else (True, 0, l3))))"


definition asi_motion_dec :: "device \<Rightarrow> bool \<times> device" where
  "asi_motion_dec s =
     (case (if lastMotionNS s = CHR ''n'' then
              (case asi_command (port s) '':Qn#'' None 0 0 of (ok, r, l) \<Rightarrow> (ok, l))
            else if lastMotionNS s = CHR ''s'' then
              (case asi_command (port s) '':Qs#'' None 0 0 of (ok, r, l) \<Rightarrow> (ok, l))
            else (True, port s)) of
        (stopped, l1) \<Rightarrow>
          if stopped then
            (if MOUNT_MOTION_NORTH_ITEM s then
               (case asi_command l1 '':Mn#'' None 0 0 of
                  (ok, r, l2) \<Rightarrow> (ok, s\<lparr>port := l2, lastMotionNS := CHR ''n''\<rparr>))
             else if MOUNT_MOTION_SOUTH_ITEM s then
               (case asi_command l1 '':Ms#'' None 0 0 of
                  (ok, r, l2) \<Rightarrow> (ok, s\<lparr>port := l2, lastMotionNS := CHR ''s''\<rparr>))
             else (stopped, s\<lparr>port := l1, lastMotionNS := NUL\<rparr>))
          else (stopped, s\<lparr>port := l1\<rparr>))"

definition asi_motion_ra :: "device \<Rightarrow> bool \<times> device" where
  "asi_motion_ra s =
     (case (if lastMotionWE s = CHR ''w'' then
              (case asi_command (port s) '':Qw#'' None 0 0 of (ok, r, l) \<Rightarrow> (ok, l))
            else if lastMotionWE s = CHR ''e'' then
              (case asi_command (port s) '':Qe#'' None 0 0 of (ok, r, l) \<Rightarrow> (ok, l))
            else (True, port s)) of
        (stopped, l1) \<Rightarrow>
          if stopped then
            (if MOUNT_MOTION_WEST_ITEM s then
               (case asi_command l1 '':Mw#'' None 0 0 of
                  (ok, r, l2) \<Rightarrow> (ok, s\<lparr>port := l2, lastMotionWE := CHR ''w''\<rparr>))
             else if MOUNT_MOTION_EAST_ITEM s then
               (case asi_command l1 '':Me#'' None 0 0 of
                  (ok, r, l2) \<Rightarrow> (ok, s\<lparr>port := l2, lastMotionWE := CHR ''e''\<rparr>))
             else (stopped, s\<lparr>port := l1, lastMotionWE := NUL\<rparr>))
          else (stopped, s\<lparr>port := l1\<rparr>))"

subsection \<open>The position poll\<close>

text \<open>
  \<^verbatim>\<open>strchr(response, c)\<close> as a truth value. \<^verbatim>\<open>indigo_set_switch\<close> belongs to the framework:
  on the one-of-many properties below it turns the named item on and the other item off.
\<close>

definition strchr :: "string \<Rightarrow> char \<Rightarrow> bool" where
  "strchr response c = (c \<in> set (cstr response))"

text \<open>The block of \<^verbatim>\<open>position_timer_callback\<close> that follows a completed \<^verbatim>\<open>:GU#\<close>.\<close>

definition status_block :: "string \<Rightarrow> device \<Rightarrow> device" where
  "status_block response s =
     (let s = s\<lparr>MOUNT_EQUATORIAL_COORDINATES_PROPERTY_state :=
                  (if strchr response (CHR ''N'') then INDIGO_OK_STATE else INDIGO_BUSY_STATE)\<rparr>;
          s = (if strchr response (CHR ''n'') then
                 (if MOUNT_TRACKING_ON_ITEM s
                  then s\<lparr>MOUNT_TRACKING_ON_ITEM := False, MOUNT_TRACKING_OFF_ITEM := True\<rparr>
                  else s)
               else
                 (if MOUNT_TRACKING_OFF_ITEM s
                  then s\<lparr>MOUNT_TRACKING_ON_ITEM := True, MOUNT_TRACKING_OFF_ITEM := False\<rparr>
                  else s))
      in if strchr response (CHR ''H'') then
           (if prev_home_state s = False
            then s\<lparr>MOUNT_HOME_PROPERTY_state := INDIGO_OK_STATE, MOUNT_HOME_ITEM := True,
                   prev_home_state := True\<rparr>
            else s\<lparr>prev_home_state := True\<rparr>)
         else
           (if prev_home_state s = True
            then s\<lparr>MOUNT_HOME_ITEM := False, prev_home_state := False\<rparr>
            else s\<lparr>prev_home_state := False\<rparr>))"

text \<open>The block that follows a completed \<^verbatim>\<open>:Gm#\<close>.\<close>

definition pier_block :: "string \<Rightarrow> device \<Rightarrow> device" where
  "pier_block response s =
     (if strchr response (CHR ''W'') \<and> \<not> MOUNT_SIDE_OF_PIER_WEST_ITEM s then
        s\<lparr>MOUNT_SIDE_OF_PIER_WEST_ITEM := True, MOUNT_SIDE_OF_PIER_EAST_ITEM := False\<rparr>
      else if strchr response (CHR ''E'') \<and> \<not> MOUNT_SIDE_OF_PIER_EAST_ITEM s then
        s\<lparr>MOUNT_SIDE_OF_PIER_EAST_ITEM := True, MOUNT_SIDE_OF_PIER_WEST_ITEM := False\<rparr>
      else if strchr response (CHR ''N'')
              \<and> (MOUNT_SIDE_OF_PIER_EAST_ITEM s \<or> MOUNT_SIDE_OF_PIER_WEST_ITEM s) then
        s\<lparr>MOUNT_SIDE_OF_PIER_WEST_ITEM := False, MOUNT_SIDE_OF_PIER_EAST_ITEM := False\<rparr>
      else s)"

text \<open>
  One tick. \<^verbatim>\<open>success && (success = asi_command(...))\<close> makes no exchange once
  \<open>success\<close> is false.
\<close>

definition position_timer_callback :: "externs \<Rightarrow> device \<Rightarrow> device" where
  "position_timer_callback X s =
     (if handle s > 0 then
        (case asi_get_coordinates X (port s) 0 0 of
           (success, ra, dec, l1) \<Rightarrow>
             (let s = (if success then
                         (case indigo_eq_to_j2k X (MOUNT_EPOCH_ITEM s) (ra, dec) of
                            (ra, dec) \<Rightarrow> s\<lparr>MOUNT_EQUATORIAL_COORDINATES_RA_ITEM := ra,
                                             MOUNT_EQUATORIAL_COORDINATES_DEC_ITEM := dec\<rparr>)
                       else s)
              in case (if success then asi_command l1 '':GU#'' (Some response_init) 128 0
                       else (False, response_init, l1)) of
                   (success, response, l2) \<Rightarrow>
                     (let s = (if success then status_block response s else s)
                      in case (if success then asi_command l2 '':Gm#'' (Some response) 128 0
                               else (False, response, l2)) of
                           (success, response, l3) \<Rightarrow>
                             (let s = (if success then pier_block response s else s);
                                  s = (if \<not> success
                                       then s\<lparr>MOUNT_EQUATORIAL_COORDINATES_PROPERTY_state := INDIGO_ALERT_STATE\<rparr>
                                       else s);
                                  s = s\<lparr>lastRA := MOUNT_EQUATORIAL_COORDINATES_RA_ITEM s,
                                         lastDec := MOUNT_EQUATORIAL_COORDINATES_DEC_ITEM s\<rparr>;
                                  s = (case asi_get_utc X (s\<lparr>port := l3\<rparr>) of
                                         (Some (secs, utc_offset), l4) \<Rightarrow>
                                           s\<lparr>port := l4, MOUNT_UTC_OFFSET_ITEM := utc_offset,
                                             MOUNT_UTC_ITEM := secs,
                                             MOUNT_UTC_TIME_PROPERTY_state := INDIGO_OK_STATE\<rparr>
                                       | (None, l4) \<Rightarrow>
                                           s\<lparr>port := l4, MOUNT_UTC_TIME_PROPERTY_state := INDIGO_ALERT_STATE\<rparr>)
                              in s\<lparr>position_timer :=
                                     Some (if MOUNT_EQUATORIAL_COORDINATES_PROPERTY_state s = INDIGO_BUSY_STATE
                                           then 1 / 2 else 1)\<rparr>))))
      else s)"

subsection \<open>What a reply is made of\<close>

text \<open>
  The bytes that arrive one after the other before \<^verbatim>\<open>select\<close> or \<^verbatim>\<open>read\<close> first answers
  anything else, and the reply the channel documentation describes for such an input: the
  bytes before the first \<^verbatim>\<open>#\<close>, at most \<open>n\<close> of them, every byte with the top bit set
  replaced by a colon.
\<close>

definition arrived :: "ev list \<Rightarrow> string" where
  "arrived es =
     map (\<lambda>e. case e of Byte b \<Rightarrow> b | _ \<Rightarrow> NUL)
       (takeWhile (\<lambda>e. case e of Byte b \<Rightarrow> True | _ \<Rightarrow> False) es)"

definition reply_of :: "ev list \<Rightarrow> nat \<Rightarrow> string" where
  "reply_of es n =
     take n (map (\<lambda>b. if digit7 b then CHR '':'' else b)
               (takeWhile (\<lambda>b. b \<noteq> CHR ''#'') (arrived es)))"

subsection \<open>Concrete runs\<close>

text \<open>
  A connected device at rest on a link on which nothing arrives, and stand-ins for the
  functions of the framework: the starting points of the concrete runs below.
\<close>

definition quiet_link :: link where
  "quiet_link = \<lparr>rx = [], tx = [], sent = []\<rparr>"

definition device0 :: device where
  "device0 =
     \<lparr>port = quiet_link, handle = 3, lastMotionNS = NUL, lastMotionWE = NUL,
      lastRA = 0, lastDec = 0, use_dst_commands = False, prev_home_state = False,
      position_timer = None,
      MOUNT_MOTION_NORTH_ITEM = False, MOUNT_MOTION_SOUTH_ITEM = False,
      MOUNT_MOTION_WEST_ITEM = False, MOUNT_MOTION_EAST_ITEM = False,
      MOUNT_TRACKING_ON_ITEM = True, MOUNT_TRACKING_OFF_ITEM = False,
      MOUNT_HOME_ITEM = False, MOUNT_HOME_PROPERTY_state = INDIGO_OK_STATE,
      MOUNT_SIDE_OF_PIER_WEST_ITEM = False, MOUNT_SIDE_OF_PIER_EAST_ITEM = False,
      MOUNT_EPOCH_ITEM = 2000,
      MOUNT_EQUATORIAL_COORDINATES_RA_ITEM = 0, MOUNT_EQUATORIAL_COORDINATES_DEC_ITEM = 0,
      MOUNT_EQUATORIAL_COORDINATES_PROPERTY_state = INDIGO_OK_STATE,
      MOUNT_GEOGRAPHIC_COORDINATES_LATITUDE_ITEM = 0,
      MOUNT_GEOGRAPHIC_COORDINATES_LONGITUDE_ITEM = 0,
      MOUNT_UTC_ITEM = 0, MOUNT_UTC_OFFSET_ITEM = 0,
      MOUNT_UTC_TIME_PROPERTY_state = INDIGO_OK_STATE\<rparr>"

definition externs0 :: externs where
  "externs0 =
     \<lparr>indigo_stod = (\<lambda>s. 0), indigo_dtos = (\<lambda>v f. ''00''), indigo_eq_to_j2k = (\<lambda>e p. p),
      mktime = (\<lambda>t. 0), daylight = 0\<rparr>"

text \<open>A link that answers 1 to the first exchange and e5 to the second.\<close>

definition slew_link :: link where
  "slew_link =
     \<lparr>rx = [Quiet, Byte CHR ''1'', Byte CHR ''#'', Quiet, Byte CHR ''e'', Byte CHR ''5'', Byte CHR ''#''],
      tx = [], sent = []\<rparr>"

text \<open>A link that answers 1 to three exchanges.\<close>

definition utc_link :: link where
  "utc_link =
     \<lparr>rx = [Quiet, Byte CHR ''1'', Quiet, Byte CHR ''1'', Quiet, Byte CHR ''1''], tx = [], sent = []\<rparr>"

text \<open>
  A link with a stale byte to drain, then a reply with a byte above 127 in it, its
  terminator, and a byte after the terminator.
\<close>

definition reply_link :: link where
  "reply_link =
     \<lparr>rx = [Byte CHR ''x'', Quiet, Byte CHR ''1'', Byte CHR 0xE9, Byte CHR ''2'', Byte CHR ''#'',
            Byte CHR ''3''],
      tx = [], sent = []\<rparr>"

text \<open>A link on which the read of the first reply fails.\<close>

definition failing_link :: link where
  "failing_link = \<lparr>rx = [Quiet, ReadError], tx = [], sent = []\<rparr>"

text \<open>
  A link that answers the two coordinate queries, then the status query with the letters
  N, n and G, then the pier side query with W.
\<close>

definition idle_link :: link where
  "idle_link =
     \<lparr>rx = [Quiet, Byte CHR ''0'', Byte CHR ''#'', Quiet, Byte CHR ''0'', Byte CHR ''#'',
            Quiet, Byte CHR ''N'', Byte CHR ''n'', Byte CHR ''G'', Byte CHR ''#'',
            Quiet, Byte CHR ''W'', Byte CHR ''#''],
      tx = [], sent = []\<rparr>"




section \<open>Properties\<close>

subsection \<open>What an exchange leaves on the link\<close>

lemma asi_command_sent:
  "asi_command l c r m sl = (ok, r', l') \<Longrightarrow>
   sent l' = sent l @ (if fst (flush (rx l)) then [c] else [])"
  by (auto simp: asi_command_def indigo_write_def Let_def
           split: prod.splits bool.splits list.splits option.splits)

lemma asi_command_sent_ok:
  "asi_command l c r m sl = (True, r', l') \<Longrightarrow> sent l' = sent l @ [c]"
  by (auto simp: asi_command_def indigo_write_def Let_def
           split: prod.splits bool.splits list.splits option.splits)

lemma deref_cstr: "cstr r = c # cs \<Longrightarrow> deref r = c"
  by (cases r) (auto simp: cstr_def deref_def split: if_splits)

lemma asi_command_triple:
  "asi_command l c r m sl =
     (fst (asi_command l c r m sl), fst (snd (asi_command l c r m sl)), snd (snd (asi_command l c r m sl)))"
  by simp

lemma asi_command_null:
  "asi_command l c None m sl =
     (if fst (flush (rx l))
      then (True, [], snd (indigo_write (l\<lparr>rx := snd (flush (rx l))\<rparr>) c))
      else (False, [], l\<lparr>rx := snd (flush (rx l))\<rparr>))"
  by (cases "flush (rx l)") (auto simp: asi_command_def Let_def)

lemma asi_command_null_sent:
  "sent (snd (snd (asi_command l c None m sl))) =
     sent l @ (if fst (asi_command l c None m sl) then [c] else [])"
  by (simp add: asi_command_null indigo_write_def split: list.splits)

subsection \<open>Guide pulses\<close>

text \<open>
  C10. A guide pulse on the declination axis with neither a north nor a south duration
  above zero, and one on the right ascension axis with neither a west nor an east duration
  above zero, returns false and leaves the link as it was: nothing is drained, written or
  read.
\<close>

theorem guide_pulse_without_direction:
  "(north \<le> 0 \<and> south \<le> 0 \<longrightarrow> asi_guide_dec l north south = (False, l)) \<and>
   (west \<le> 0 \<and> east \<le> 0 \<longrightarrow> asi_guide_ra l west east = (False, l))"
  by (simp add: asi_guide_dec_def asi_guide_ra_def)

theorem guide_pulse_without_direction_witness:
  "asi_guide_dec \<lparr>rx = [], tx = [], sent = []\<rparr> 0 (- 5) = (False, \<lparr>rx = [], tx = [], sent = []\<rparr>) \<and>
   asi_guide_ra \<lparr>rx = [], tx = [], sent = []\<rparr> (- 1) 0 = (False, \<lparr>rx = [], tx = [], sent = []\<rparr>)"
  using guide_pulse_without_direction [of 0 "- 5" "\<lparr>rx = [], tx = [], sent = []\<rparr>" "- 1" 0]
  by simp

subsection \<open>Failures of the channel\<close>

text \<open>
  C3. On a link whose next write fails, \<^verbatim>\<open>indigo_write\<close> reports the failure and
  \<^verbatim>\<open>asi_command\<close> returns true all the same: the result of the write is never looked at.
\<close>

theorem asi_command_drops_write_result:
  "fst (indigo_write \<lparr>rx = [], tx = [False], sent = []\<rparr> '':Mn#'') = False \<and>
   asi_command \<lparr>rx = [], tx = [False], sent = []\<rparr> '':Mn#'' None 0 0
     = (True, [], \<lparr>rx = [], tx = [], sent = ['':Mn#'']\<rparr>)"
  by (simp add: asi_command_def indigo_write_def)

subsection \<open>Slew\<close>

text \<open>
  C5. When the exchange that sets the target right ascension completes with a reply that
  starts with 1, and the exchange that sets the target declination completes with the reply
  e5, \<^verbatim>\<open>asi_slew\<close> returns false with error code 5, the message of that code is the
  below-horizon entry of the table, and the two target commands are all the call wrote:
  the start command \<^verbatim>\<open>:MS#\<close> is not among them.
\<close>

theorem slew_below_horizon:
  assumes "asi_command l ('':Sr'' @ indigo_dtos X ra ''%02d:%02d:%02.0f'' @ ''#'') (Some response) 128 0
             = (True, r1, l1)"
      and "deref r1 = CHR ''1''"
      and "asi_command l1 ('':Sd'' @ indigo_dtos X dec ''%+03d*%02d:%02.0f'' @ ''#'') (Some r1) 128 0
             = (True, r2, l2)"
      and "cstr r2 = ''e5''"
  shows "asi_slew X l ra dec response = (False, 5, l2) \<and>
         asi_error_string (nat 5) = ''Target is below horizon'' \<and>
         sent l2 = sent l @ ['':Sr'' @ indigo_dtos X ra ''%02d:%02d:%02.0f'' @ ''#'',
                             '':Sd'' @ indigo_dtos X dec ''%+03d*%02d:%02.0f'' @ ''#''] \<and>
         '':MS#'' \<notin> set (drop (length (sent l)) (sent l2))"
proof -
  have d2: "deref r2 = CHR ''e''" using assms(4) by (rule deref_cstr)
  have code: "asi_error_code (cstr r2) = 5"
    by (simp add: assms(4) asi_error_code_def scan_d_def isspace_def isdigit_def digit_value_def)
  have run: "asi_slew X l ra dec response = (False, 5, l2)"
    using assms(1,2,3) d2 code by (simp add: asi_slew_def)
  have s1: "sent l1 = sent l @ ['':Sr'' @ indigo_dtos X ra ''%02d:%02d:%02.0f'' @ ''#'']"
    using assms(1) by (rule asi_command_sent_ok)
  have s2: "sent l2 = sent l1 @ ['':Sd'' @ indigo_dtos X dec ''%+03d*%02d:%02.0f'' @ ''#'']"
    using assms(3) by (rule asi_command_sent_ok)
  have str: "asi_error_string (nat 5) = ''Target is below horizon''"
    by (simp add: asi_error_string_def error_string_def)
  show ?thesis using run s1 s2 str by simp
qed

theorem slew_below_horizon_witness:
  "fst (asi_slew externs0 slew_link 0 0 response_init) = False \<and>
   fst (snd (asi_slew externs0 slew_link 0 0 response_init)) = 5 \<and>
   sent (snd (snd (asi_slew externs0 slew_link 0 0 response_init))) = ['':Sr00#'', '':Sd00#'']"
proof -
  define x1 where "x1 = asi_command slew_link ('':Sr'' @ indigo_dtos externs0 0 ''%02d:%02d:%02.0f'' @ ''#'') (Some response_init) 128 0"
  define r1 where "r1 = fst (snd x1)"
  define l1 where "l1 = snd (snd x1)"
  define x2 where "x2 = asi_command l1 ('':Sd'' @ indigo_dtos externs0 0 ''%+03d*%02d:%02.0f'' @ ''#'') (Some r1) 128 0"
  define r2 where "r2 = fst (snd x2)"
  define l2 where "l2 = snd (snd x2)"
  have ok1: "fst x1 = True" unfolding x1_def by code_simp
  have d1: "deref r1 = CHR ''1''" unfolding r1_def x1_def by code_simp
  have ok2: "fst x2 = True" unfolding x2_def l1_def r1_def x1_def by code_simp
  have c2: "cstr r2 = ''e5''" unfolding r2_def x2_def l1_def r1_def x1_def by code_simp
  have s0: "sent slew_link = []" by (simp add: slew_link_def)
  have dt: "indigo_dtos externs0 = (\<lambda>v f. ''00'')" by (simp add: externs0_def)
  have e1: "asi_command slew_link ('':Sr'' @ indigo_dtos externs0 0 ''%02d:%02d:%02.0f'' @ ''#'') (Some response_init) 128 0 = (True, r1, l1)"
  proof -
    have "x1 = (True, r1, l1)" using ok1 by (simp add: r1_def l1_def prod_eq_iff)
    then show ?thesis unfolding x1_def .
  qed
  have e2: "asi_command l1 ('':Sd'' @ indigo_dtos externs0 0 ''%+03d*%02d:%02.0f'' @ ''#'') (Some r1) 128 0 = (True, r2, l2)"
  proof -
    have "x2 = (True, r2, l2)" using ok2 by (simp add: r2_def l2_def prod_eq_iff)
    then show ?thesis unfolding x2_def .
  qed
  from slew_below_horizon [OF e1 d1 e2 c2] show ?thesis by (simp add: s0 dt)
qed

subsection \<open>The reply of an exchange\<close>

lemma reply_of_simps:
  "reply_of [] k = []" "reply_of (Quiet # es) k = []" "reply_of (SelectError # es) k = []"
  "reply_of (ReadError # es) k = []" "reply_of es 0 = []"
  "reply_of (Byte b # es) (Suc k) =
     (if b = CHR ''#'' then [] else (if digit7 b then CHR '':'' else b) # reply_of es k)"
  by (simp_all add: reply_of_def arrived_def)

lemma reply_of_clean:
  "CHR ''#'' \<notin> set (reply_of es k) \<and> (\<forall>c \<in> set (reply_of es k). \<not> digit7 c)"
proof -
  have "c \<noteq> CHR ''#'' \<and> \<not> digit7 c" if "c \<in> set (reply_of es k)" for c
  proof -
    from that obtain b where b: "b \<in> set (takeWhile (\<lambda>b. b \<noteq> CHR ''#'') (arrived es))"
      and c: "c = (if digit7 b then CHR '':'' else b)"
      by (auto simp: reply_of_def dest!: in_set_takeD)
    from b have "b \<noteq> CHR ''#''" by (auto dest: set_takeWhileD)
    with c show ?thesis by auto
  qed
  then show ?thesis by blast
qed

lemma read_response_reply:
  "nat maxlen \<le> length r \<Longrightarrow> read_response es maxlen i r = (ok, j, r', es') \<Longrightarrow>
   j = i + length (reply_of es (nat maxlen - i)) \<and>
   r' = take i r @ reply_of es (nat maxlen - i) @ drop j r"
proof (induction es maxlen i r rule: read_response.induct)
  case (5 b es maxlen index response)
  show ?case
  proof (cases "int index < maxlen")
    case False
    with 5 show ?thesis by (auto simp: reply_of_simps)
  next
    case True
    then obtain k where k: "nat maxlen - index = Suc k" by (cases "nat maxlen - index") auto
    show ?thesis
    proof (cases "b = CHR ''#''")
      case True
      with 5 \<open>int index < maxlen\<close> k show ?thesis by (auto simp: reply_of_simps Let_def split: if_splits)
    next
      case False
      have len: "index < length response" using \<open>int index < maxlen\<close> 5(2) by linarith
      define c where "c = (if digit7 b then CHR '':'' else b)"
      have cne: "c \<noteq> CHR ''#''" using False by (simp add: c_def)
      have st: "store response index c = response[index := c]" using len by (simp add: store_def)
      from 5(3) \<open>int index < maxlen\<close> cne
      have run: "read_response es maxlen (index + 1) (store response index c) = (ok, j, r', es')"
        by (simp add: c_def Let_def)
      have "nat maxlen \<le> length (store response index c)" using 5(2) by (simp add: st)
      from 5(1)[OF \<open>int index < maxlen\<close> c_def cne this run]
      have j: "j = index + 1 + length (reply_of es (nat maxlen - (index + 1)))"
        and r': "r' = take (index + 1) (store response index c) @ reply_of es (nat maxlen - (index + 1)) @ drop j (store response index c)"
        by blast+
      have k': "nat maxlen - Suc index = k" using k by simp
      have t: "take (Suc index) (store response index c) = take index response @ [c]"
        using len by (simp add: st take_Suc_conv_app_nth)
      have d: "drop (Suc (index + m)) (store response index c) = drop (Suc (index + m)) response" for m
        by (simp add: st)
      have e: "reply_of (Byte b # es) (nat maxlen - index) = c # reply_of es k"
        using False by (simp add: k reply_of_simps c_def)
      show ?thesis unfolding e using j r' by (simp add: k' t d)
    qed
  qed
qed (auto simp: reply_of_simps split: if_splits)

lemma indigo_write_rx: "rx (snd (indigo_write l c)) = rx l"
  by (simp add: indigo_write_def split: list.splits)

text \<open>
  C9. When an exchange that expects a reply returns true (into a buffer of at least
  \<open>max\<close> cells), the buffer holds the reply followed by a zero byte, where the reply is
  the bytes that arrived after the drain and before the first \<^verbatim>\<open>#\<close> (at most \<open>max\<close> of
  them), every byte with the top bit set replaced by a colon. The reply holds no
  \<^verbatim>\<open>#\<close> and no byte with the top bit set, and the string the caller reads is the reply
  up to its first zero byte.
\<close>

theorem asi_command_reply:
  assumes "asi_command l command (Some response) maxlen sleep = (True, response', l')"
      and "nat maxlen \<le> length response"
  shows "response' = reply_of (snd (flush (rx l))) (nat maxlen) @ NUL
                       # drop (Suc (length (reply_of (snd (flush (rx l))) (nat maxlen)))) response \<and>
         cstr response' = takeWhile (\<lambda>c. c \<noteq> NUL) (reply_of (snd (flush (rx l))) (nat maxlen)) \<and>
         CHR ''#'' \<notin> set (reply_of (snd (flush (rx l))) (nat maxlen)) \<and>
         (\<forall>c \<in> set (reply_of (snd (flush (rx l))) (nat maxlen)). \<not> digit7 c)"
proof -
  obtain fok es where fl: "flush (rx l) = (fok, es)" by (cases "flush (rx l)")
  define l1 where "l1 = snd (indigo_write (l\<lparr>rx := es\<rparr>) command)"
  have rx1: "rx l1 = es" by (simp add: l1_def indigo_write_rx)
  obtain ok j r' es' where rr: "read_response es maxlen 0 response = (ok, j, r', es')"
    by (cases "read_response es maxlen 0 response") auto
  from assms(1) fl rr rx1 have fok: "fok" and ok: "ok" and resp: "response' = store r' j NUL"
    by (auto simp: asi_command_def Let_def l1_def [symmetric] split: if_splits bool.splits)
  define reply where "reply = reply_of es (nat maxlen)"
  from read_response_reply [OF assms(2) rr]
  have j: "j = length reply" and r': "r' = reply @ drop j response"
    by (simp_all add: reply_def)
  have jl: "j \<le> length response" using j assms(2) by (simp add: reply_def reply_of_def)
  have "store r' j NUL = reply @ NUL # drop (Suc j) response"
  proof (cases "j < length response")
    case True
    then have "drop j response = response ! j # drop (Suc j) response" by (simp add: Cons_nth_drop_Suc)
    then show ?thesis using True by (simp add: store_def r' j list_update_append)
  next
    case False
    then have "j = length response" using jl by simp
    then show ?thesis by (simp add: store_def r' j)
  qed
  then have a: "response' = reply @ NUL # drop (Suc (length reply)) response" using resp j by simp
  have b: "cstr response' = takeWhile (\<lambda>c. c \<noteq> NUL) reply"
  proof -
    have "takeWhile (\<lambda>c. c \<noteq> NUL) (xs @ NUL # ys) = takeWhile (\<lambda>c. c \<noteq> NUL) xs" for xs ys
      by (induction xs) simp_all
    then show ?thesis unfolding a cstr_def .
  qed
  show ?thesis using a b reply_of_clean [of es "nat maxlen"] by (simp add: fl reply_def)
qed

theorem asi_command_reply_witness:
  "fst (asi_command reply_link '':GR#'' (Some response_init) 128 0) = True \<and>
   cstr (fst (snd (asi_command reply_link '':GR#'' (Some response_init) 128 0))) = ''1:2'' \<and>
   reply_of (snd (flush (rx reply_link))) (nat 128) = ''1:2''"
proof -
  define x where "x = asi_command reply_link '':GR#'' (Some response_init) 128 0"
  have ok: "fst x = True" unfolding x_def by code_simp
  have e: "asi_command reply_link '':GR#'' (Some response_init) 128 0 = (True, fst (snd x), snd (snd x))"
  proof -
    have "x = (True, fst (snd x), snd (snd x))" using ok by (simp add: prod_eq_iff)
    then show ?thesis unfolding x_def .
  qed
  have len: "nat 128 \<le> length response_init" by (simp add: response_init_def)
  have r: "reply_of (snd (flush (rx reply_link))) (nat 128) = ''1:2''" by code_simp
  from asi_command_reply [OF e len] have "cstr (fst (snd x)) = takeWhile (\<lambda>c. c \<noteq> NUL) (reply_of (snd (flush (rx reply_link))) (nat 128))"
    by blast
  then have "cstr (fst (snd x)) = ''1:2''" unfolding r by simp
  then show ?thesis using ok r unfolding x_def by blast
qed

subsection \<open>Setting the clock\<close>

lemma gmtime_r_scenario:
  "gmtime_r 1686823200 = \<lparr>tm_sec = 0, tm_min = 0, tm_hour = 10, tm_mday = 15, tm_mon = 5,
                            tm_year = 123, tm_isdst = 0, tm_gmtoff = 0\<rparr>"
  by code_simp

lemma printf_d_scenario:
  "printf_d False 2 6 = ''06''" "printf_d False 2 15 = ''15''" "printf_d False 2 23 = ''23''"
  "printf_d False 2 10 = ''10''" "printf_d False 2 0 = ''00''" "printf_d True 3 (- 2) = ''-02''"
  by (simp_all add: printf_d_def digits10.simps)

lemma scenario_commands:
  "'':SC'' @ printf_d False 2 (tm_mon (gmtime_r (1686816000 + 2 * 3600)) + 1) @ ''/''
       @ printf_d False 2 (tm_mday (gmtime_r (1686816000 + 2 * 3600))) @ ''/''
       @ printf_d False 2 (c_rem (tm_year (gmtime_r (1686816000 + 2 * 3600))) 100) @ ''#'' = '':SC06/15/23#''"
  "'':SG'' @ printf_d True 3 (- 2) @ ''#'' = '':SG-02#''"
  "'':SL'' @ printf_d False 2 (tm_hour (gmtime_r (1686816000 + 2 * 3600))) @ '':''
       @ printf_d False 2 (tm_min (gmtime_r (1686816000 + 2 * 3600))) @ '':''
       @ printf_d False 2 (tm_sec (gmtime_r (1686816000 + 2 * 3600))) @ ''#'' = '':SL10:00:00#''"
  by (simp_all add: gmtime_r_scenario printf_d_scenario c_rem_def)

text \<open>
  C6. \<^verbatim>\<open>asi_set_utc\<close> runs the date, the offset and the time exchange in this order (with
  the DST command, which reads no reply, between the first two on a device that uses it).
  When the date exchange fails or its reply does not start with 1, the call returns false
  with the link as that exchange left it, and likewise after the offset exchange; otherwise
  its result is that of the time exchange. On a device that does not use the DST commands,
  what the call writes is a prefix of the three commands (so never \<^verbatim>\<open>:SH#\<close>), and all
  three when it returns true. For the UTC time 2023-06-15T08:00:00 and the offset 2 (local
  time 10:00:00) the three commands are \<^verbatim>\<open>:SC06/15/23#\<close>, \<^verbatim>\<open>:SG-02#\<close> and
  \<^verbatim>\<open>:SL10:00:00#\<close>.
\<close>

theorem set_utc_sequence:
  fixes X :: externs and s :: device and secs utc_offset :: int
  defines "tm \<equiv> gmtime_r (secs + utc_offset * 3600)"
  defines "date \<equiv> '':SC'' @ printf_d False 2 (tm_mon tm + 1) @ ''/'' @ printf_d False 2 (tm_mday tm)
                     @ ''/'' @ printf_d False 2 (c_rem (tm_year tm) 100) @ ''#''"
  defines "offset \<equiv> '':SG'' @ printf_d True 3 (- utc_offset) @ ''#''"
  defines "time \<equiv> '':SL'' @ printf_d False 2 (tm_hour tm) @ '':'' @ printf_d False 2 (tm_min tm)
                     @ '':'' @ printf_d False 2 (tm_sec tm) @ ''#''"
  assumes x1: "asi_command (port s) date (Some response_init) 1 0 = (ok1, r1, l1)"
      and xh: "lh = (if use_dst_commands s
                     then snd (snd (asi_command l1 ('':SH'' @ printf_d False 0 (daylight X) @ ''#'') None 0 0))
                     else l1)"
      and x2: "asi_command lh offset (Some r1) 1 0 = (ok2, r2, l2)"
      and x3: "asi_command l2 time (Some r2) 1 0 = (ok3, r3, l3)"
  shows "asi_set_utc X s secs utc_offset =
           (if \<not> (ok1 \<and> deref r1 = CHR ''1'') then (False, l1)
            else if \<not> (ok2 \<and> deref r2 = CHR ''1'') then (False, l2)
            else (ok3 \<and> deref r3 = CHR ''1'', l3)) \<and>
         (\<not> use_dst_commands s \<longrightarrow>
            (\<exists>n. sent (snd (asi_set_utc X s secs utc_offset)) = sent (port s) @ take n [date, offset, time]) \<and>
            (fst (asi_set_utc X s secs utc_offset) \<longrightarrow>
               sent (snd (asi_set_utc X s secs utc_offset)) = sent (port s) @ [date, offset, time])) \<and>
         (secs = 1686816000 \<and> utc_offset = 2 \<longrightarrow>
            date = '':SC06/15/23#'' \<and> offset = '':SG-02#'' \<and> time = '':SL10:00:00#'')"
proof -
  have run: "asi_set_utc X s secs utc_offset =
           (if \<not> (ok1 \<and> deref r1 = CHR ''1'') then (False, l1)
            else if \<not> (ok2 \<and> deref r2 = CHR ''1'') then (False, l2)
            else (ok3 \<and> deref r3 = CHR ''1'', l3))"
    using x1 x2 x3 unfolding date_def offset_def time_def tm_def xh
    by (simp add: asi_set_utc_def Let_def)
  have s1: "sent l1 = sent (port s) @ (if fst (flush (rx (port s))) then [date] else [])"
    using x1 by (rule asi_command_sent)
  have s2: "sent l2 = sent lh @ (if fst (flush (rx lh)) then [offset] else [])"
    using x2 by (rule asi_command_sent)
  have s3: "sent l3 = sent l2 @ (if fst (flush (rx l2)) then [time] else [])"
    using x3 by (rule asi_command_sent)
  have f1: "ok1 \<Longrightarrow> sent l1 = sent (port s) @ [date]" using x1 by (auto dest: asi_command_sent_ok)
  have f2: "ok2 \<Longrightarrow> sent l2 = sent lh @ [offset]" using x2 by (auto dest: asi_command_sent_ok)
  have f3: "ok3 \<Longrightarrow> sent l3 = sent l2 @ [time]" using x3 by (auto dest: asi_command_sent_ok)
  have t0: "take 0 [date, offset, time] = []" and t1: "take 1 [date, offset, time] = [date]"
    and t2: "take 2 [date, offset, time] = [date, offset]"
    and t3: "take 3 [date, offset, time] = [date, offset, time]" by simp_all
  have pre: "\<exists>n. sent (snd (asi_set_utc X s secs utc_offset)) = sent (port s) @ take n [date, offset, time]"
    if nodst: "\<not> use_dst_commands s"
  proof (cases "ok1 \<and> deref r1 = CHR ''1''")
    case False
    then have r: "snd (asi_set_utc X s secs utc_offset) = l1" by (simp add: run)
    show ?thesis
    proof (cases "fst (flush (rx (port s)))")
      case True then show ?thesis unfolding r using s1 t1 by (intro exI [of _ 1]) simp
    next
      case False then show ?thesis unfolding r using s1 t0 by (intro exI [of _ 0]) simp
    qed
  next
    case a1: True
    show ?thesis
    proof (cases "ok2 \<and> deref r2 = CHR ''1''")
      case False
      then have r: "snd (asi_set_utc X s secs utc_offset) = l2" using a1 by (simp add: run)
      have lh: "lh = l1" using nodst xh by simp
      show ?thesis
      proof (cases "fst (flush (rx l1))")
        case True then show ?thesis unfolding r using s2 f1 a1 t2 lh by (intro exI [of _ 2]) simp
      next
        case False then show ?thesis unfolding r using s2 f1 a1 t1 lh by (intro exI [of _ 1]) simp
      qed
    next
      case a2: True
      then have r: "snd (asi_set_utc X s secs utc_offset) = l3" using a1 by (simp add: run)
      have lh: "lh = l1" using nodst xh by simp
      show ?thesis
      proof (cases "fst (flush (rx l2))")
        case True then show ?thesis unfolding r using s3 f1 f2 a1 a2 t3 lh by (intro exI [of _ 3]) simp
      next
        case False then show ?thesis unfolding r using s3 f1 f2 a1 a2 t2 lh by (intro exI [of _ 2]) simp
      qed
    qed
  qed
  have full: "fst (asi_set_utc X s secs utc_offset) \<longrightarrow>
            sent (snd (asi_set_utc X s secs utc_offset)) = sent (port s) @ [date, offset, time]"
    if nodst: "\<not> use_dst_commands s"
  proof -
    have lh: "lh = l1" using nodst xh by simp
    show ?thesis using f1 f2 f3 lh by (auto simp: run split: if_splits)
  qed
  have scen: "secs = 1686816000 \<and> utc_offset = 2 \<longrightarrow>
            date = '':SC06/15/23#'' \<and> offset = '':SG-02#'' \<and> time = '':SL10:00:00#''"
    unfolding date_def offset_def time_def tm_def using scenario_commands by auto
  show ?thesis using run pre full scen by blast
qed


theorem set_utc_sequence_witness:
  "fst (asi_set_utc externs0 (device0\<lparr>port := utc_link\<rparr>) 1686816000 2) = True \<and>
   sent (snd (asi_set_utc externs0 (device0\<lparr>port := utc_link\<rparr>) 1686816000 2))
     = ['':SC06/15/23#'', '':SG-02#'', '':SL10:00:00#'']"
proof -
  have nodst: "\<not> use_dst_commands (device0\<lparr>port := utc_link\<rparr>)" by (simp add: device0_def)
  have ok: "fst (asi_set_utc externs0 (device0\<lparr>port := utc_link\<rparr>) 1686816000 2)" by code_simp
  have s0: "sent (port (device0\<lparr>port := utc_link\<rparr>)) = []" by (simp add: utc_link_def)
  note F = set_utc_sequence [where X = externs0 and s = "device0\<lparr>port := utc_link\<rparr>" and secs = 1686816000 and utc_offset = 2,
                             OF asi_command_triple refl asi_command_triple asi_command_triple]
  note A = F [THEN conjunct2, THEN conjunct1, rule_format, OF nodst, THEN conjunct2, rule_format, OF ok]
  note B = F [THEN conjunct2, THEN conjunct2, rule_format, OF conjI [OF refl refl]]
  from A B ok s0 show ?thesis by simp
qed

subsection \<open>Motion on one axis\<close>

text \<open>
  C1, as the code has it, for the declination axis on \<open>s\<close> and the right ascension axis on
  \<open>t\<close>. Whenever a direction is recorded, the operation first runs the stop exchange of
  the recorded direction, whatever direction is requested. When that exchange fails, the
  operation returns false, has written nothing and leaves the recorded direction as it
  was. Otherwise, with a direction requested, it records that direction and runs its start
  exchange, whose result it returns: what was written is the stop command (when a direction
  was recorded) followed by the start command, the latter exactly when the operation returns
  true. With no direction requested it returns true, has written the stop command at most,
  and records no direction.
\<close>

theorem motion_stops_whatever_the_direction:
  fixes s t :: device
  defines "rec_ns \<equiv> lastMotionNS s = CHR ''n'' \<or> lastMotionNS s = CHR ''s''"
      and "stop_ns \<equiv> if lastMotionNS s = CHR ''n'' then '':Qn#'' else '':Qs#''"
      and "req_ns \<equiv> MOUNT_MOTION_NORTH_ITEM s \<or> MOUNT_MOTION_SOUTH_ITEM s"
      and "start_ns \<equiv> if MOUNT_MOTION_NORTH_ITEM s then '':Mn#'' else '':Ms#''"
      and "dir_ns \<equiv> if MOUNT_MOTION_NORTH_ITEM s then CHR ''n'' else CHR ''s''"
  defines "q_ns \<equiv> asi_command (port s) stop_ns None 0 0"
  defines "base_ns \<equiv> if rec_ns then snd (snd q_ns) else port s"
  defines "m_ns \<equiv> asi_command base_ns start_ns None 0 0"
  defines "rec_we \<equiv> lastMotionWE t = CHR ''w'' \<or> lastMotionWE t = CHR ''e''"
      and "stop_we \<equiv> if lastMotionWE t = CHR ''w'' then '':Qw#'' else '':Qe#''"
      and "req_we \<equiv> MOUNT_MOTION_WEST_ITEM t \<or> MOUNT_MOTION_EAST_ITEM t"
      and "start_we \<equiv> if MOUNT_MOTION_WEST_ITEM t then '':Mw#'' else '':Me#''"
      and "dir_we \<equiv> if MOUNT_MOTION_WEST_ITEM t then CHR ''w'' else CHR ''e''"
  defines "q_we \<equiv> asi_command (port t) stop_we None 0 0"
  defines "base_we \<equiv> if rec_we then snd (snd q_we) else port t"
  defines "m_we \<equiv> asi_command base_we start_we None 0 0"
  shows
    "(rec_ns \<and> \<not> fst q_ns \<longrightarrow>
        asi_motion_dec s = (False, s\<lparr>port := snd (snd q_ns)\<rparr>) \<and>
        sent (snd (snd q_ns)) = sent (port s)) \<and>
     (\<not> (rec_ns \<and> \<not> fst q_ns) \<and> req_ns \<longrightarrow>
        asi_motion_dec s = (fst m_ns, s\<lparr>port := snd (snd m_ns), lastMotionNS := dir_ns\<rparr>) \<and>
        sent (snd (snd m_ns)) =
          sent (port s) @ (if rec_ns then [stop_ns] else []) @ (if fst m_ns then [start_ns] else [])) \<and>
     (\<not> (rec_ns \<and> \<not> fst q_ns) \<and> \<not> req_ns \<longrightarrow>
        asi_motion_dec s = (True, s\<lparr>port := base_ns, lastMotionNS := NUL\<rparr>) \<and>
        sent base_ns = sent (port s) @ (if rec_ns then [stop_ns] else [])) \<and>
     (rec_we \<and> \<not> fst q_we \<longrightarrow>
        asi_motion_ra t = (False, t\<lparr>port := snd (snd q_we)\<rparr>) \<and>
        sent (snd (snd q_we)) = sent (port t)) \<and>
     (\<not> (rec_we \<and> \<not> fst q_we) \<and> req_we \<longrightarrow>
        asi_motion_ra t = (fst m_we, t\<lparr>port := snd (snd m_we), lastMotionWE := dir_we\<rparr>) \<and>
        sent (snd (snd m_we)) =
          sent (port t) @ (if rec_we then [stop_we] else []) @ (if fst m_we then [start_we] else [])) \<and>
     (\<not> (rec_we \<and> \<not> fst q_we) \<and> \<not> req_we \<longrightarrow>
        asi_motion_ra t = (True, t\<lparr>port := base_we, lastMotionWE := NUL\<rparr>) \<and>
        sent base_we = sent (port t) @ (if rec_we then [stop_we] else []))"
proof -
  have sq: "sent (snd (snd q_ns)) = sent (port s) @ (if fst q_ns then [stop_ns] else [])"
    unfolding q_ns_def by (rule asi_command_null_sent)
  have sm: "sent (snd (snd m_ns)) = sent base_ns @ (if fst m_ns then [start_ns] else [])"
    unfolding m_ns_def by (rule asi_command_null_sent)
  have sb: "\<not> (rec_ns \<and> \<not> fst q_ns) \<Longrightarrow> sent base_ns = sent (port s) @ (if rec_ns then [stop_ns] else [])"
    using sq by (auto simp: base_ns_def)
  have d1: "rec_ns \<and> \<not> fst q_ns \<Longrightarrow> asi_motion_dec s = (False, s\<lparr>port := snd (snd q_ns)\<rparr>)"
    unfolding rec_ns_def q_ns_def stop_ns_def
    by (auto simp: asi_motion_dec_def split: prod.splits)
  have d2: "\<not> (rec_ns \<and> \<not> fst q_ns) \<Longrightarrow> req_ns \<Longrightarrow>
      asi_motion_dec s = (fst m_ns, s\<lparr>port := snd (snd m_ns), lastMotionNS := dir_ns\<rparr>)"
    unfolding rec_ns_def q_ns_def stop_ns_def req_ns_def m_ns_def base_ns_def start_ns_def dir_ns_def
    by (auto simp: asi_motion_dec_def split: prod.splits)
  have d3: "\<not> (rec_ns \<and> \<not> fst q_ns) \<Longrightarrow> \<not> req_ns \<Longrightarrow>
      asi_motion_dec s = (True, s\<lparr>port := base_ns, lastMotionNS := NUL\<rparr>)"
    unfolding rec_ns_def q_ns_def stop_ns_def req_ns_def base_ns_def
    by (auto simp: asi_motion_dec_def split: prod.splits)
  have tq: "sent (snd (snd q_we)) = sent (port t) @ (if fst q_we then [stop_we] else [])"
    unfolding q_we_def by (rule asi_command_null_sent)
  have tm: "sent (snd (snd m_we)) = sent base_we @ (if fst m_we then [start_we] else [])"
    unfolding m_we_def by (rule asi_command_null_sent)
  have tb: "\<not> (rec_we \<and> \<not> fst q_we) \<Longrightarrow> sent base_we = sent (port t) @ (if rec_we then [stop_we] else [])"
    using tq by (auto simp: base_we_def)
  have r1: "rec_we \<and> \<not> fst q_we \<Longrightarrow> asi_motion_ra t = (False, t\<lparr>port := snd (snd q_we)\<rparr>)"
    unfolding rec_we_def q_we_def stop_we_def
    by (auto simp: asi_motion_ra_def split: prod.splits)
  have r2: "\<not> (rec_we \<and> \<not> fst q_we) \<Longrightarrow> req_we \<Longrightarrow>
      asi_motion_ra t = (fst m_we, t\<lparr>port := snd (snd m_we), lastMotionWE := dir_we\<rparr>)"
    unfolding rec_we_def q_we_def stop_we_def req_we_def m_we_def base_we_def start_we_def dir_we_def
    by (auto simp: asi_motion_ra_def split: prod.splits)
  have r3: "\<not> (rec_we \<and> \<not> fst q_we) \<Longrightarrow> \<not> req_we \<Longrightarrow>
      asi_motion_ra t = (True, t\<lparr>port := base_we, lastMotionWE := NUL\<rparr>)"
    unfolding rec_we_def q_we_def stop_we_def req_we_def base_we_def
    by (auto simp: asi_motion_ra_def split: prod.splits)
  show ?thesis
    using sq sm sb d1 d2 d3 tq tm tb r1 r2 r3 by auto
qed

theorem motion_stops_whatever_the_direction_witness:
  "asi_motion_dec (device0\<lparr>lastMotionNS := CHR ''s'', MOUNT_MOTION_NORTH_ITEM := True\<rparr>)
     = (True, device0\<lparr>port := \<lparr>rx = [], tx = [], sent = ['':Qs#'', '':Mn#'']\<rparr>,
                      lastMotionNS := CHR ''n'', MOUNT_MOTION_NORTH_ITEM := True\<rparr>) \<and>
   asi_motion_ra (device0\<lparr>port := \<lparr>rx = [SelectError], tx = [], sent = []\<rparr>,
                         lastMotionWE := CHR ''w'', MOUNT_MOTION_WEST_ITEM := True\<rparr>)
     = (False, device0\<lparr>port := \<lparr>rx = [], tx = [], sent = []\<rparr>,
                       lastMotionWE := CHR ''w'', MOUNT_MOTION_WEST_ITEM := True\<rparr>) \<and>
   asi_motion_dec (device0\<lparr>port := \<lparr>rx = [Quiet, SelectError], tx = [], sent = []\<rparr>,
                          lastMotionNS := CHR ''s'', MOUNT_MOTION_NORTH_ITEM := True\<rparr>)
     = (False, device0\<lparr>port := \<lparr>rx = [], tx = [], sent = ['':Qs#'']\<rparr>,
                       lastMotionNS := CHR ''n'', MOUNT_MOTION_NORTH_ITEM := True\<rparr>) \<and>
   asi_motion_ra (device0\<lparr>lastMotionWE := CHR ''e''\<rparr>)
     = (True, device0\<lparr>port := \<lparr>rx = [], tx = [], sent = ['':Qe#'']\<rparr>, lastMotionWE := NUL\<rparr>) \<and>
   asi_motion_dec (device0\<lparr>port := \<lparr>rx = [ReadError], tx = [], sent = []\<rparr>,
                          lastMotionNS := CHR ''n'', MOUNT_MOTION_SOUTH_ITEM := True\<rparr>)
     = (False, device0\<lparr>port := \<lparr>rx = [], tx = [], sent = []\<rparr>,
                       lastMotionNS := CHR ''n'', MOUNT_MOTION_SOUTH_ITEM := True\<rparr>) \<and>
   asi_motion_ra (device0\<lparr>lastMotionWE := CHR ''w'', MOUNT_MOTION_EAST_ITEM := True\<rparr>)
     = (True, device0\<lparr>port := \<lparr>rx = [], tx = [], sent = ['':Qw#'', '':Me#'']\<rparr>,
                      lastMotionWE := CHR ''e'', MOUNT_MOTION_EAST_ITEM := True\<rparr>) \<and>
   asi_motion_dec (device0\<lparr>lastMotionNS := CHR ''n''\<rparr>)
     = (True, device0\<lparr>port := \<lparr>rx = [], tx = [], sent = ['':Qn#'']\<rparr>, lastMotionNS := NUL\<rparr>) \<and>
   asi_motion_ra (device0\<lparr>MOUNT_MOTION_WEST_ITEM := True\<rparr>)
     = (True, device0\<lparr>port := \<lparr>rx = [], tx = [], sent = ['':Mw#'']\<rparr>,
                      lastMotionWE := CHR ''w'', MOUNT_MOTION_WEST_ITEM := True\<rparr>)"
proof -
  note A = motion_stops_whatever_the_direction
    [of "device0\<lparr>lastMotionNS := CHR ''s'', MOUNT_MOTION_NORTH_ITEM := True\<rparr>"
        "device0\<lparr>port := \<lparr>rx = [SelectError], tx = [], sent = []\<rparr>,
                 lastMotionWE := CHR ''w'', MOUNT_MOTION_WEST_ITEM := True\<rparr>"]
  note B = motion_stops_whatever_the_direction
    [of "device0\<lparr>port := \<lparr>rx = [Quiet, SelectError], tx = [], sent = []\<rparr>,
                 lastMotionNS := CHR ''s'', MOUNT_MOTION_NORTH_ITEM := True\<rparr>"
        "device0\<lparr>lastMotionWE := CHR ''e''\<rparr>"]
  note C = motion_stops_whatever_the_direction
    [of "device0\<lparr>port := \<lparr>rx = [ReadError], tx = [], sent = []\<rparr>,
                 lastMotionNS := CHR ''n'', MOUNT_MOTION_SOUTH_ITEM := True\<rparr>"
        "device0\<lparr>lastMotionWE := CHR ''w'', MOUNT_MOTION_EAST_ITEM := True\<rparr>"]
  note D = motion_stops_whatever_the_direction
    [of "device0\<lparr>lastMotionNS := CHR ''n''\<rparr>"
        "device0\<lparr>MOUNT_MOTION_WEST_ITEM := True\<rparr>"]
  have f: "MOUNT_MOTION_NORTH_ITEM device0 = False" "MOUNT_MOTION_SOUTH_ITEM device0 = False"
          "MOUNT_MOTION_WEST_ITEM device0 = False" "MOUNT_MOTION_EAST_ITEM device0 = False"
          "lastMotionNS device0 = NUL" "lastMotionWE device0 = NUL"
          "port device0 = quiet_link"
    by (simp_all add: device0_def)
  from A B C D show ?thesis
    by (simp add: asi_command_null indigo_write_def quiet_link_def f)
qed

text \<open>
  C1 as stated fails: the same request made twice, north on the declination axis and east
  on the right ascension axis, writes a stop command before the second start.
\<close>

theorem motion_repeated_counterexample:
  "sent (port (snd (asi_motion_dec (snd (asi_motion_dec (device0\<lparr>MOUNT_MOTION_NORTH_ITEM := True\<rparr>))))))
     = ['':Mn#'', '':Qn#'', '':Mn#''] \<and>
   sent (port (snd (asi_motion_ra (snd (asi_motion_ra (device0\<lparr>MOUNT_MOTION_EAST_ITEM := True\<rparr>))))))
     = ['':Me#'', '':Qe#'', '':Me#'']"
  by (simp add: asi_motion_dec_def asi_motion_ra_def asi_command_def indigo_write_def device0_def quiet_link_def)

subsection \<open>The poll\<close>

lemma asi_command_sent_in:
  "asi_command l c r m sl = (ok, r', l') \<Longrightarrow> c \<in> A \<Longrightarrow>
   \<exists>ys. sent l' = sent l @ ys \<and> set ys \<subseteq> A"
  by (drule asi_command_sent) (auto split: if_splits)

lemma sent_in_trans:
  "\<exists>ys. sent l1 = sent l @ ys \<and> set ys \<subseteq> A \<Longrightarrow> \<exists>ys. sent l2 = sent l1 @ ys \<and> set ys \<subseteq> A \<Longrightarrow>
   \<exists>ys. sent l2 = sent l @ ys \<and> set ys \<subseteq> A"
  by auto

lemma asi_get_coordinates_sent:
  assumes "asi_get_coordinates X l ra dec = (ok, ra', dec', l')"
  shows "\<exists>ys. sent l' = sent l @ ys \<and> set ys \<subseteq> {'':GR#'', '':GD#''}"
proof -
  obtain ok1 r1 l1 where x1: "asi_command l '':GR#'' (Some response_init) 128 0 = (ok1, r1, l1)"
    by (cases "asi_command l '':GR#'' (Some response_init) 128 0") auto
  obtain ok2 r2 l2 where x2: "asi_command l1 '':GD#'' (Some r1) 128 0 = (ok2, r2, l2)"
    by (cases "asi_command l1 '':GD#'' (Some r1) 128 0") auto
  have a: "\<exists>ys. sent l1 = sent l @ ys \<and> set ys \<subseteq> {'':GR#'', '':GD#''}"
    using x1 by (rule asi_command_sent_in) simp
  have b: "\<exists>ys. sent l2 = sent l1 @ ys \<and> set ys \<subseteq> {'':GR#'', '':GD#''}"
    using x2 by (rule asi_command_sent_in) simp
  have "l' = l1 \<or> l' = l2" using assms x1 x2
    by (auto simp: asi_get_coordinates_def Let_def split: if_splits)
  then show ?thesis using a sent_in_trans [OF a b] by blast
qed

lemma asi_get_utc_sent:
  assumes "asi_get_utc X s = (res, l')"
  shows "\<exists>ys. sent l' = sent (port s) @ ys \<and> set ys \<subseteq> {'':GC#'', '':GL#'', '':GG#'', '':GH#''}"
proof -
  let ?A = "{'':GC#'', '':GL#'', '':GG#'', '':GH#''}"
  obtain ok1 r1 l1 where x1: "asi_command (port s) '':GC#'' (Some response_init) 128 0 = (ok1, r1, l1)"
    by (cases "asi_command (port s) '':GC#'' (Some response_init) 128 0") auto
  obtain ok2 r2 l2 where x2: "asi_command l1 '':GL#'' (Some r1) 128 0 = (ok2, r2, l2)"
    by (cases "asi_command l1 '':GL#'' (Some r1) 128 0") auto
  obtain ok3 r3 l3 where x3: "asi_command l2 '':GG#'' (Some r2) 128 0 = (ok3, r3, l3)"
    by (cases "asi_command l2 '':GG#'' (Some r2) 128 0") auto
  obtain ok4 r4 l4 where x4: "asi_command l3 '':GH#'' (Some r3) 128 0 = (ok4, r4, l4)"
    by (cases "asi_command l3 '':GH#'' (Some r3) 128 0") auto
  have a: "\<exists>ys. sent l1 = sent (port s) @ ys \<and> set ys \<subseteq> ?A"
    using x1 by (rule asi_command_sent_in) simp
  have b: "\<exists>ys. sent l2 = sent l1 @ ys \<and> set ys \<subseteq> ?A"
    using x2 by (rule asi_command_sent_in) simp
  have c: "\<exists>ys. sent l3 = sent l2 @ ys \<and> set ys \<subseteq> ?A"
    using x3 by (rule asi_command_sent_in) simp
  have d: "\<exists>ys. sent l4 = sent l3 @ ys \<and> set ys \<subseteq> ?A"
    using x4 by (rule asi_command_sent_in) simp
  note ab = sent_in_trans [OF a b]
  note abc = sent_in_trans [OF ab c]
  note abcd = sent_in_trans [OF abc d]
  have "l' = l1 \<or> l' = l2 \<or> l' = l3 \<or> l' = l4" using assms x1 x2 x3 x4
    by (auto simp: asi_get_utc_def Let_def split: if_splits option.splits prod.splits)
  then show ?thesis using a ab abc abcd by blast
qed

lemma asi_get_utc_reads:
  assumes p: "port s = port t" and d: "use_dst_commands s = use_dst_commands t"
  shows "asi_get_utc X s = asi_get_utc X t"
  unfolding asi_get_utc_def p d ..

text \<open>
  C4, as the code has it. In a tick whose coordinate read fails, the equatorial state is
  set to alert, neither \<^verbatim>\<open>:GU#\<close> nor \<^verbatim>\<open>:Gm#\<close> is written, the clock is read on the link as
  the coordinate read left it, and the next tick is scheduled after one second.
\<close>

theorem poll_after_failed_coordinates:
  assumes "0 < handle s"
      and "asi_get_coordinates X (port s) 0 0 = (False, ra, dec, l1)"
  shows "MOUNT_EQUATORIAL_COORDINATES_PROPERTY_state (position_timer_callback X s) = INDIGO_ALERT_STATE \<and>
         position_timer (position_timer_callback X s) = Some 1 \<and>
         port (position_timer_callback X s) = snd (asi_get_utc X (s\<lparr>port := l1\<rparr>)) \<and>
         '':GU#'' \<notin> set (drop (length (sent (port s))) (sent (port (position_timer_callback X s)))) \<and>
         '':Gm#'' \<notin> set (drop (length (sent (port s))) (sent (port (position_timer_callback X s))))"
proof -
  define s1 where "s1 = s\<lparr>MOUNT_EQUATORIAL_COORDINATES_PROPERTY_state := INDIGO_ALERT_STATE,
                           lastRA := MOUNT_EQUATORIAL_COORDINATES_RA_ITEM s,
                           lastDec := MOUNT_EQUATORIAL_COORDINATES_DEC_ITEM s\<rparr>"
  obtain res l4 where u: "asi_get_utc X (s\<lparr>port := l1\<rparr>) = (res, l4)"
    by (cases "asi_get_utc X (s\<lparr>port := l1\<rparr>)") auto
  have u1: "asi_get_utc X (s1\<lparr>port := l1\<rparr>) = (res, l4)"
    using u asi_get_utc_reads [of "s1\<lparr>port := l1\<rparr>" "s\<lparr>port := l1\<rparr>" X] by (simp add: s1_def)
  have run: "MOUNT_EQUATORIAL_COORDINATES_PROPERTY_state (position_timer_callback X s) = INDIGO_ALERT_STATE \<and>
         position_timer (position_timer_callback X s) = Some 1 \<and>
         port (position_timer_callback X s) = l4"
    using assms u1 unfolding s1_def
    by (simp add: position_timer_callback_def Let_def split: option.splits prod.splits)
  from asi_get_coordinates_sent [OF assms(2)] obtain ys where
    ys: "sent l1 = sent (port s) @ ys" "set ys \<subseteq> {'':GR#'', '':GD#''}" by blast
  from asi_get_utc_sent [OF u] obtain zs where
    zs: "sent l4 = sent l1 @ zs" "set zs \<subseteq> {'':GC#'', '':GL#'', '':GG#'', '':GH#''}" by auto
  have new: "drop (length (sent (port s))) (sent l4) = ys @ zs" using ys zs by simp
  have "'':GU#'' \<notin> set (ys @ zs)" "'':Gm#'' \<notin> set (ys @ zs)" using ys(2) zs(2) by auto
  then show ?thesis using run new u by simp
qed

theorem poll_after_failed_coordinates_witness:
  "MOUNT_EQUATORIAL_COORDINATES_PROPERTY_state
     (position_timer_callback externs0 (device0\<lparr>port := failing_link\<rparr>)) = INDIGO_ALERT_STATE \<and>
   position_timer (position_timer_callback externs0 (device0\<lparr>port := failing_link\<rparr>)) = Some 1"
proof -
  define x where "x = asi_get_coordinates externs0 (port (device0\<lparr>port := failing_link\<rparr>)) 0 0"
  have f: "fst x = False" unfolding x_def by code_simp
  have e: "asi_get_coordinates externs0 (port (device0\<lparr>port := failing_link\<rparr>)) 0 0
             = (False, fst (snd x), fst (snd (snd x)), snd (snd (snd x)))"
  proof -
    have "x = (False, fst (snd x), fst (snd (snd x)), snd (snd (snd x)))" using f by (simp add: prod_eq_iff)
    then show ?thesis unfolding x_def .
  qed
  have h: "0 < handle (device0\<lparr>port := failing_link\<rparr>)" by (simp add: device0_def)
  from poll_after_failed_coordinates [OF h e] show ?thesis by blast
qed

text \<open>
  C4 as stated fails: on a link where the read of the \<^verbatim>\<open>:GR#\<close> reply fails, the tick
  writes \<^verbatim>\<open>:GR#\<close> and then \<^verbatim>\<open>:GC#\<close>, and no status or pier side query.
\<close>

theorem poll_skips_status_counterexample:
  "fst (asi_get_coordinates externs0 failing_link 0 0) = False \<and>
   sent (port (position_timer_callback externs0 (device0\<lparr>port := failing_link\<rparr>))) = ['':GR#'', '':GC#'']"
  by code_simp

lemma pier_block_keeps:
  "MOUNT_EQUATORIAL_COORDINATES_PROPERTY_state (pier_block r s) = MOUNT_EQUATORIAL_COORDINATES_PROPERTY_state s"
  "MOUNT_TRACKING_ON_ITEM (pier_block r s) = MOUNT_TRACKING_ON_ITEM s"
  "MOUNT_TRACKING_OFF_ITEM (pier_block r s) = MOUNT_TRACKING_OFF_ITEM s"
  by (simp_all add: pier_block_def)

text \<open>
  C8. In a tick whose coordinate read succeeds and whose \<^verbatim>\<open>:GU#\<close> exchange completes with
  a reply that holds both N and n, the equatorial state ends OK (or alert, when the pier
  side exchange that follows fails) and never busy, the next tick is scheduled after one
  second, and the tracking switches end with ON off, and with OFF on whenever one of the
  two was on before.
\<close>

theorem poll_idle_tracking_off:
  assumes "0 < handle s"
      and "asi_get_coordinates X (port s) 0 0 = (True, ra, dec, l1)"
      and "asi_command l1 '':GU#'' (Some response_init) 128 0 = (True, response, l2)"
      and "strchr response (CHR ''N'')"
      and "strchr response (CHR ''n'')"
  shows "MOUNT_EQUATORIAL_COORDINATES_PROPERTY_state (position_timer_callback X s)
           = (if fst (asi_command l2 '':Gm#'' (Some response) 128 0) then INDIGO_OK_STATE
              else INDIGO_ALERT_STATE) \<and>
         MOUNT_EQUATORIAL_COORDINATES_PROPERTY_state (position_timer_callback X s) \<noteq> INDIGO_BUSY_STATE \<and>
         position_timer (position_timer_callback X s) = Some 1 \<and>
         \<not> MOUNT_TRACKING_ON_ITEM (position_timer_callback X s) \<and>
         MOUNT_TRACKING_OFF_ITEM (position_timer_callback X s)
           = (MOUNT_TRACKING_ON_ITEM s \<or> MOUNT_TRACKING_OFF_ITEM s)"
proof -
  obtain ra' dec' where j: "indigo_eq_to_j2k X (MOUNT_EPOCH_ITEM s) (ra, dec) = (ra', dec')"
    by (cases "indigo_eq_to_j2k X (MOUNT_EPOCH_ITEM s) (ra, dec)") auto
  define s1 where "s1 = s\<lparr>MOUNT_EQUATORIAL_COORDINATES_RA_ITEM := ra', MOUNT_EQUATORIAL_COORDINATES_DEC_ITEM := dec'\<rparr>"
  have sb: "MOUNT_EQUATORIAL_COORDINATES_PROPERTY_state (status_block response s1) = INDIGO_OK_STATE"
           "\<not> MOUNT_TRACKING_ON_ITEM (status_block response s1)"
           "MOUNT_TRACKING_OFF_ITEM (status_block response s1) = (MOUNT_TRACKING_ON_ITEM s \<or> MOUNT_TRACKING_OFF_ITEM s)"
    using assms(4,5) by (auto simp: status_block_def Let_def s1_def)
  obtain ok3 r3 l3 where m: "asi_command l2 '':Gm#'' (Some response) 128 0 = (ok3, r3, l3)"
    by (cases "asi_command l2 '':Gm#'' (Some response) 128 0") auto
  show ?thesis
    using assms(1,2,3) j m sb unfolding s1_def
    by (simp add: position_timer_callback_def Let_def pier_block_keeps split: option.splits prod.splits)
qed

theorem poll_idle_tracking_off_witness:
  "MOUNT_EQUATORIAL_COORDINATES_PROPERTY_state
     (position_timer_callback externs0 (device0\<lparr>port := idle_link\<rparr>)) \<noteq> INDIGO_BUSY_STATE \<and>
   position_timer (position_timer_callback externs0 (device0\<lparr>port := idle_link\<rparr>)) = Some 1 \<and>
   MOUNT_TRACKING_ON_ITEM (position_timer_callback externs0 (device0\<lparr>port := idle_link\<rparr>)) = False \<and>
   MOUNT_TRACKING_OFF_ITEM (position_timer_callback externs0 (device0\<lparr>port := idle_link\<rparr>)) = True"
proof -
  define x where "x = asi_get_coordinates externs0 (port (device0\<lparr>port := idle_link\<rparr>)) 0 0"
  define y where "y = asi_command (snd (snd (snd x))) '':GU#'' (Some response_init) 128 0"
  have fx: "fst x = True" unfolding x_def by code_simp
  have fy: "fst y = True" unfolding y_def x_def by code_simp
  have n1: "strchr (fst (snd y)) (CHR ''N'')" unfolding y_def x_def by code_simp
  have n2: "strchr (fst (snd y)) (CHR ''n'')" unfolding y_def x_def by code_simp
  have e: "asi_get_coordinates externs0 (port (device0\<lparr>port := idle_link\<rparr>)) 0 0
             = (True, fst (snd x), fst (snd (snd x)), snd (snd (snd x)))"
  proof -
    have "x = (True, fst (snd x), fst (snd (snd x)), snd (snd (snd x)))" using fx by (simp add: prod_eq_iff)
    then show ?thesis unfolding x_def .
  qed
  have g: "asi_command (snd (snd (snd x))) '':GU#'' (Some response_init) 128 0 = (True, fst (snd y), snd (snd y))"
  proof -
    have "y = (True, fst (snd y), snd (snd y))" using fy by (simp add: prod_eq_iff)
    then show ?thesis unfolding y_def .
  qed
  have h: "0 < handle (device0\<lparr>port := idle_link\<rparr>)" by (simp add: device0_def)
  have i: "MOUNT_TRACKING_ON_ITEM (device0\<lparr>port := idle_link\<rparr>)" by (simp add: device0_def)
  from poll_idle_tracking_off [OF h e g n1 n2] i show ?thesis by simp
qed

subsection \<open>The guide rate\<close>






subsection \<open>The site\<close>






end
